theory Spec2Isabelle
  imports Complex_Main "HOL-Library.Char_ord" "HOL-Library.List_Lexorder"
begin

section \<open>Errors\<close>

text \<open>
  Every exception the Python sources can raise is a value. \<open>KeyError\<close> carries the
  missing label (an integer label such as \<open>bp[1]\<close> is written as its decimal text),
  \<open>NoSuchKey\<close> is the object store's resource-not-found failure, \<open>TypeError\<close> and
  \<open>ValueError\<close> are Python's own, \<open>ClientError\<close> stands for any failure
  reported by a cloud service call.
\<close>

datatype error =
    KeyError string
  | NoSuchKey string
  | TypeError string
  | ValueError string
  | ClientError string

definition and_then :: "error + 'a \<Rightarrow> ('a \<Rightarrow> error + 'b) \<Rightarrow> error + 'b" where
  "and_then m f = (case m of Inl e \<Rightarrow> Inl e | Inr x \<Rightarrow> f x)"

section \<open>Data frames\<close>

text \<open>
  A raw record is a Python dict: column names with a string, a number or \<open>None\<close>
  (what \<open>csv.DictReader\<close> yields for a short line). Items are kept in insertion
  order; a dict has pairwise distinct keys.

  Numbers are values of a type \<open>'n\<close> with \<open>0\<close> and \<open>1\<close>: pandas stores them as
  int64 or float64, and the sources only ever create the numbers \<open>0\<close> and \<open>1\<close>
  themselves. Everything that reads or prints a number is pandas library code and is
  taken as a parameter, the record \<open>pandas\<close>: \<open>to_numeric\<close> is
  \<open>pd.to_numeric\<close> on one string (\<open>None\<close> when the text is no number, which
  \<open>errors="coerce"\<close> turns into NaN) and \<open>num_str\<close> is \<open>str\<close> of a number.
\<close>

datatype 'n cell = Str string | Num 'n | NoneV

type_synonym 'n raw_record = "(string \<times> 'n cell) list"

record 'n pandas =
  to_numeric :: "string \<Rightarrow> 'n option"
  num_str :: "'n \<Rightarrow> string"

text \<open>
  A data frame is a list of named columns. A column has a dtype: \<open>ObjCol\<close> is an
  object column of strings, \<open>NumCol\<close> a numeric column; \<open>None\<close> is a missing value
  (\<open>None\<close> in an object column, NaN in a numeric one).
\<close>

datatype 'n column = ObjCol "string option list" | NumCol "'n option list"

type_synonym 'n frame = "(string \<times> 'n column) list"

type_synonym 'n numeric_frame = "(string \<times> 'n list) list"

definition columns :: "(string \<times> 'a) list \<Rightarrow> string list" where
  "columns df = map fst df"

fun column_of_cell :: "'n cell \<Rightarrow> 'n column" where
  "column_of_cell (Str s) = ObjCol [Some s]"
| "column_of_cell (Num n) = NumCol [Some n]"
| "column_of_cell NoneV = ObjCol [None]"

text \<open>\<open>pd.DataFrame([df_row])\<close>: one row, one column per key, in key order.\<close>

definition DataFrame :: "'n raw_record \<Rightarrow> 'n frame" where
  "DataFrame df_row = map (\<lambda>(k, v). (k, column_of_cell v)) df_row"

text \<open>\<open>df[c] = v\<close>: an existing column is replaced in place, a new one is appended.\<close>

definition set_col :: "string \<Rightarrow> 'a \<Rightarrow> (string \<times> 'a) list \<Rightarrow> (string \<times> 'a) list" where
  "set_col c v df =
     (if c \<in> set (columns df)
      then map (\<lambda>(k, x). if k = c then (k, v) else (k, x)) df
      else df @ [(c, v)])"

text \<open>\<open>df[c]\<close>: raises \<open>KeyError\<close> when there is no such column.\<close>

definition get_col :: "(string \<times> 'a) list \<Rightarrow> string \<Rightarrow> error + 'a" where
  "get_col df c = (case map_of df c of None \<Rightarrow> Inl (KeyError c) | Some v \<Rightarrow> Inr v)"

text \<open>\<open>df.drop(columns=cs, errors="ignore")\<close>.\<close>

definition drop_columns :: "string list \<Rightarrow> (string \<times> 'a) list \<Rightarrow> (string \<times> 'a) list" where
  "drop_columns cs df = filter (\<lambda>(k, x). k \<notin> set cs) df"

text \<open>\<open>df[cs]\<close> for a list of labels: the columns in the order of \<open>cs\<close>.\<close>

fun select_columns :: "(string \<times> 'a) list \<Rightarrow> string list \<Rightarrow> error + (string \<times> 'a) list" where
  "select_columns df [] = Inr []"
| "select_columns df (c # cs) =
     (case map_of df c of
        None \<Rightarrow> Inl (KeyError c)
      | Some v \<Rightarrow>
          (case select_columns df cs of
             Inl e \<Rightarrow> Inl e
           | Inr r \<Rightarrow> Inr ((c, v) # r)))"

text \<open>\<open>.astype(str)\<close> on a column.\<close>

fun astype_str :: "'n pandas \<Rightarrow> 'n column \<Rightarrow> string list" where
  "astype_str P (ObjCol vs) = map (\<lambda>v. case v of None \<Rightarrow> ''None'' | Some s \<Rightarrow> s) vs"
| "astype_str P (NumCol vs) = map (\<lambda>v. case v of None \<Rightarrow> ''nan'' | Some n \<Rightarrow> num_str P n) vs"

text \<open>
  \<open>s.split(sep, 1)\<close>: at most one split, at the first separator.
\<close>

definition split_once :: "char \<Rightarrow> string \<Rightarrow> string list" where
  "split_once sep s =
     (if sep \<in> set s
      then [takeWhile (\<lambda>c. c \<noteq> sep) s, tl (dropWhile (\<lambda>c. c \<noteq> sep) s)]
      else [s])"

text \<open>
  \<open>.str.split("/", n=1, expand=True)\<close>: the result is a frame with columns
  \<open>0, 1, \<dots>\<close>, as many as the longest split of any row; shorter rows are padded
  with missing values. The model returns the list of these columns.
\<close>

definition str_split_expand :: "string list \<Rightarrow> string option list list" where
  "str_split_expand strs =
     (let parts = map (split_once (CHR ''/'')) strs;
          width = foldr (\<lambda>p w. max (length p) w) parts 0
      in map (\<lambda>j. map (\<lambda>p. if j < length p then Some (p ! j) else None) parts) [0..<width])"

text \<open>\<open>pd.to_numeric(col, errors="coerce")\<close>: a numeric column, NaN where the text is no number.\<close>

fun to_numeric_coerce :: "'n pandas \<Rightarrow> 'n column \<Rightarrow> 'n option list" where
  "to_numeric_coerce P (ObjCol vs) =
     map (\<lambda>v. case v of None \<Rightarrow> None | Some s \<Rightarrow> to_numeric P s) vs"
| "to_numeric_coerce P (NumCol vs) = vs"

definition fillna0 :: "('n::zero) option list \<Rightarrow> 'n list" where
  "fillna0 vs = map (\<lambda>v. case v of None \<Rightarrow> 0 | Some n \<Rightarrow> n) vs"

text \<open>
  \<open>str.lower()\<close>. The model lowers the letters A to Z and leaves every other byte
  alone; no character outside ASCII lowers to one of the letters of
  \<open>male\<close>, \<open>healthy\<close> or \<open>unhealthy\<close>, the only words the result is compared with.
\<close>

definition lower_char :: "char \<Rightarrow> char" where
  "lower_char c =
     (case map_of (zip ''ABCDEFGHIJKLMNOPQRSTUVWXYZ'' ''abcdefghijklmnopqrstuvwxyz'') c of
        None \<Rightarrow> c
      | Some d \<Rightarrow> d)"

definition str_lower :: "string \<Rightarrow> string" where
  "str_lower s = map lower_char s"

section \<open>The scoring path: \<open>preprocess_row\<close> (lambda/lambda_function.py)\<close>

text \<open>
  The block "Split Blood Pressure", shared verbatim by both paths. \<open>bp[0]\<close> and
  \<open>bp[1]\<close> raise \<open>KeyError\<close> when the split frame has no such column.
\<close>

definition split_blood_pressure :: "'n pandas \<Rightarrow> 'n frame \<Rightarrow> error + 'n frame" where
  "split_blood_pressure P df =
     (if ''Blood Pressure'' \<in> set (columns df) then
        and_then (get_col df ''Blood Pressure'') (\<lambda>col.
          let bp = str_split_expand (astype_str P col) in
          if length bp < 1 then Inl (KeyError ''0'')
          else
            let df1 = set_col ''BP_Systolic'' (NumCol (to_numeric_coerce P (ObjCol (bp ! 0)))) df in
            if length bp < 2 then Inl (KeyError ''1'')
            else
              let df2 = set_col ''BP_Diastolic'' (NumCol (to_numeric_coerce P (ObjCol (bp ! 1)))) df1
              in Inr (drop_columns [''Blood Pressure''] df2))
      else Inr df)"

definition identifier_columns :: "string list" where
  "identifier_columns = [''Patient ID'', ''Country'', ''Continent'', ''Hemisphere'']"

text \<open>\<open>(col.astype(str).str.lower() == word).astype(int)\<close>.\<close>

definition indicator :: "'n pandas \<Rightarrow> 'n column \<Rightarrow> string \<Rightarrow> ('n::zero_neq_one) column" where
  "indicator P col word =
     NumCol (map (\<lambda>s. Some (of_bool (str_lower s = word))) (astype_str P col))"

text \<open>The block "Manual encoding for categorical columns" and "Drop originals".\<close>

definition encode_categoricals :: "'n pandas \<Rightarrow> 'n frame \<Rightarrow> error + ('n::zero_neq_one) frame" where
  "encode_categoricals P df =
     and_then (get_col df ''Sex'') (\<lambda>sex.
       let df1 = set_col ''Sex_Male'' (indicator P sex ''male'') df in
       and_then (get_col df1 ''Diet'') (\<lambda>diet.
         let df2 = set_col ''Diet_Healthy'' (indicator P diet ''healthy'') df1 in
         and_then (get_col df2 ''Diet'') (\<lambda>diet'.
           let df3 = set_col ''Diet_Unhealthy'' (indicator P diet' ''unhealthy'') df2
           in Inr (drop_columns [''Sex'', ''Diet''] df3))))"

text \<open>\<open>df.apply(pd.to_numeric, errors="coerce").fillna(0)\<close>.\<close>

definition coerce_fillna :: "'n pandas \<Rightarrow> 'n frame \<Rightarrow> ('n::zero) numeric_frame" where
  "coerce_fillna P df = map (\<lambda>(k, col). (k, fillna0 (to_numeric_coerce P col))) df"

text \<open>
  The loop "Align with expected features": \<open>df[col] = 0\<close> for every expected name
  that is no column yet. The scalar is broadcast over the rows of the frame; the
  frame of \<open>preprocess_row\<close> has one row.
\<close>

fun align_features :: "nat \<Rightarrow> string list \<Rightarrow> ('n::zero) numeric_frame \<Rightarrow> 'n numeric_frame" where
  "align_features nrows [] df = df"
| "align_features nrows (c # cs) df =
     align_features nrows cs
       (if c \<notin> set (columns df) then set_col c (replicate nrows 0) df else df)"

definition preprocess_row ::
  "'n pandas \<Rightarrow> 'n raw_record \<Rightarrow> string list \<Rightarrow> error + ('n::zero_neq_one) numeric_frame" where
  "preprocess_row P df_row expected_features =
     and_then (split_blood_pressure P (DataFrame df_row)) (\<lambda>df.
       let df = drop_columns identifier_columns df in
       and_then (encode_categoricals P df) (\<lambda>df.
         let df = coerce_fillna P df;
             df = align_features 1 expected_features df
         in select_columns df expected_features))"

section \<open>Reading the results of \<open>preprocess_row\<close>\<close>

text \<open>\<open>str\<close> of one cell of a raw record, as \<open>astype(str)\<close> sees it in a one-row frame.\<close>

fun cell_text :: "'n pandas \<Rightarrow> 'n cell \<Rightarrow> string" where
  "cell_text P (Str s) = s"
| "cell_text P (Num n) = num_str P n"
| "cell_text P NoneV = ''None''"

text \<open>
  The feature names that can be derived from a raw record: its own columns and the two
  blood-pressure features when it has \<open>Blood Pressure\<close>, without the dropped columns,
  and the three indicators.
\<close>

definition derived_names :: "'n raw_record \<Rightarrow> string set" where
  "derived_names row =
     ((set (columns row) \<union>
        (if ''Blood Pressure'' \<in> set (columns row) then {''BP_Systolic'', ''BP_Diastolic''} else {}))
       - {''Blood Pressure''} - set identifier_columns - {''Sex'', ''Diet''})
     \<union> {''Sex_Male'', ''Diet_Healthy'', ''Diet_Unhealthy''}"

text \<open>
  An instance of the pandas parameters for examples, on integers: \<open>pd.to_numeric\<close> and
  \<open>str\<close> restricted to decimal integer literals.
\<close>

definition digit_of :: "char \<Rightarrow> nat option" where
  "digit_of c = map_of (zip ''0123456789'' [0..<10]) c"

fun digits_value :: "nat \<Rightarrow> string \<Rightarrow> nat option" where
  "digits_value acc [] = Some acc"
| "digits_value acc (c # cs) =
     (case digit_of c of None \<Rightarrow> None | Some d \<Rightarrow> digits_value (10 * acc + d) cs)"

definition int_literal :: "string \<Rightarrow> int option" where
  "int_literal s =
     (case s of
        [] \<Rightarrow> None
      | c # cs \<Rightarrow>
          if c = CHR ''-'' then (if cs = [] then None else map_option (\<lambda>n. - int n) (digits_value 0 cs))
          else map_option int (digits_value 0 s))"

definition digit_char :: "nat \<Rightarrow> char" where
  "digit_char d = ''0123456789'' ! d"

fun str_nat :: "nat \<Rightarrow> string" where
  "str_nat n = (if n < 10 then [digit_char n] else str_nat (n div 10) @ [digit_char (n mod 10)])"

declare str_nat.simps [simp del]

definition str_int :: "int \<Rightarrow> string" where
  "str_int i = (if i < 0 then CHR ''-'' # str_nat (nat (- i)) else str_nat (nat i))"

definition int_pandas :: "int pandas" where
  "int_pandas = \<lparr>to_numeric = int_literal, num_str = str_int\<rparr>"

text \<open>A row as \<open>csv.DictReader\<close> yields it, every value a string, and a feature schema.\<close>

definition example_row :: "int raw_record" where
  "example_row =
     [(''Patient ID'', Str ''BMW7812''), (''Age'', Str ''67''), (''Sex'', Str ''Male''),
      (''Diet'', Str ''Healthy''), (''Blood Pressure'', Str ''130/85'')]"


section \<open>The training path: \<open>preprocess_health_data\<close> (sagemaker/preprocess.py)\<close>

definition non_null :: "'a option list \<Rightarrow> 'a list" where
  "non_null vs = map the (filter (\<lambda>v. v \<noteq> None) vs)"








section \<open>The aggregation job (emr/main.py)\<close>

text \<open>
  The job is a script over two tables read with an inferred schema. \<open>sim\<close> has one
  row per entity and day, \<open>hist\<close> one row per entity; a historical row keeps its
  entity identifier and, by name, all its other columns. A missing cell is \<open>None\<close>
  (SQL null). Averages are computed by the engine in double precision; the model
  computes them exactly, as rationals, which is the same value wherever the sum and
  the count are small enough for doubles to be exact.
\<close>

record sim_row =
  sim_patient_id :: "string option"
  heart_rate :: "int option"
  bp_systolic :: "int option"
  bp_diastolic :: "int option"
  sleep_hours :: "rat option"
  physical_activity :: "int option"

record hist_row =
  hist_patient_id :: "string option"
  hist_columns :: "(string \<times> string option) list"

record agg_row =
  agg_patient_id :: "string option"
  agg_heart_rate :: "rat option"
  agg_sleep_hours :: "rat option"
  agg_activity_days :: "int option"
  agg_blood_pressure :: string

record final_row =
  vitals :: agg_row
  history :: "(string \<times> string option) list option"

text \<open>\<open>avg\<close> and \<open>sum\<close> skip nulls and are null over no value at all.\<close>

definition avg :: "rat option list \<Rightarrow> rat option" where
  "avg vs =
     (let xs = non_null vs
      in if xs = [] then None else Some (sum_list xs / of_nat (length xs)))"

definition sum_agg :: "int option list \<Rightarrow> int option" where
  "sum_agg vs = (let xs = non_null vs in if xs = [] then None else Some (sum_list xs))"

text \<open>\<open>round(x, d)\<close> of the engine rounds half away from zero (HALF_UP) at \<open>d\<close> decimals.\<close>

definition round_half_up :: "nat \<Rightarrow> rat \<Rightarrow> rat" where
  "round_half_up d x =
     (if x < 0 then - (of_int \<lfloor>- x * 10 ^ d + 1 / 2\<rfloor> / 10 ^ d)
      else of_int \<lfloor>x * 10 ^ d + 1 / 2\<rfloor> / 10 ^ d)"

text \<open>\<open>.cast(IntegerType())\<close> of a double: towards zero, saturating at the 32-bit bounds.\<close>

definition cast_int :: "rat \<Rightarrow> int" where
  "cast_int x =
     (let t = (if x < 0 then - \<lfloor>- x\<rfloor> else \<lfloor>x\<rfloor>)
      in max (- (2 ^ 31)) (min (2 ^ 31 - 1) t))"

text \<open>\<open>concat_ws(sep, \<dots>)\<close> joins the arguments that are not null.\<close>

fun join_with :: "string \<Rightarrow> string list \<Rightarrow> string" where
  "join_with sep [] = []"
| "join_with sep [x] = x"
| "join_with sep (x # y # ys) = x @ sep @ join_with sep (y # ys)"

definition concat_ws :: "string \<Rightarrow> string option list \<Rightarrow> string" where
  "concat_ws sep parts = join_with sep (non_null parts)"

text \<open>
  \<open>sim.groupBy("Patient ID").agg(\<dots>)\<close>, then the column \<open>Blood Pressure\<close> and the
  drop of the two averaged pressures. One row per distinct identifier; nulls form a
  group of their own. The engine fixes no order of the groups.
\<close>

definition aggregate_group :: "string option \<Rightarrow> sim_row list \<Rightarrow> agg_row" where
  "aggregate_group k g =
     (let AvgBP_Systolic =
            map_option (round_half_up 0) (avg (map (\<lambda>r. map_option of_int (bp_systolic r)) g));
          AvgBP_Diastolic =
            map_option (round_half_up 0) (avg (map (\<lambda>r. map_option of_int (bp_diastolic r)) g))
      in \<lparr>agg_patient_id = k,
          agg_heart_rate =
            map_option (round_half_up 0) (avg (map (\<lambda>r. map_option of_int (heart_rate r)) g)),
          agg_sleep_hours = map_option (round_half_up 2) (avg (map sleep_hours g)),
          agg_activity_days = sum_agg (map physical_activity g),
          agg_blood_pressure =
            concat_ws ''/''
              [map_option (\<lambda>x. str_int (cast_int x)) AvgBP_Systolic,
               map_option (\<lambda>x. str_int (cast_int x)) AvgBP_Diastolic]\<rparr>)"

definition agg :: "sim_row list \<Rightarrow> agg_row list" where
  "agg sim =
     map (\<lambda>k. aggregate_group k (filter (\<lambda>r. sim_patient_id r = k) sim))
       (remdups (map sim_patient_id sim))"

definition hist_clean :: "hist_row list \<Rightarrow> hist_row list" where
  "hist_clean hist =
     map (\<lambda>h. h\<lparr>hist_columns :=
            drop_columns [''Heart Rate'', ''Blood Pressure'', ''Sleep Hours Per Day'',
              ''Physical Activity Days Per Week'', ''Heart Attack Risk''] (hist_columns h)\<rparr>) hist"

text \<open>
  \<open>left.join(right, on="Patient ID", how="left")\<close>: every left row once per matching
  right row, and once with nulls when nothing matches. Null never equals null.
\<close>

definition join_left :: "agg_row list \<Rightarrow> hist_row list \<Rightarrow> final_row list" where
  "join_left left right =
     concat (map (\<lambda>a.
       let ms = filter (\<lambda>h. agg_patient_id a \<noteq> None \<and> hist_patient_id h = agg_patient_id a) right
       in if ms = [] then [\<lparr>vitals = a, history = None\<rparr>]
          else map (\<lambda>h. \<lparr>vitals = a, history = Some (hist_columns h)\<rparr>) ms) left)"

definition final :: "sim_row list \<Rightarrow> hist_row list \<Rightarrow> final_row list" where
  "final sim hist = join_left (agg sim) (hist_clean hist)"

definition final_patient_id :: "final_row \<Rightarrow> string option" where
  "final_patient_id r = agg_patient_id (vitals r)"

text \<open>Seven daily readings of one entity, with the heart rates of the specification's example.\<close>

definition reading :: "string \<Rightarrow> int \<Rightarrow> sim_row" where
  "reading pid hr =
     \<lparr>sim_patient_id = Some pid, heart_rate = Some hr, bp_systolic = Some 130,
      bp_diastolic = Some 85, sleep_hours = Some (13 / 2), physical_activity = Some 1\<rparr>"

definition example_week :: "sim_row list" where
  "example_week = map (reading ''BMW7812'') [60, 70, 80, 90, 100, 110, 60]"

definition example_hist :: "hist_row list" where
  "example_hist =
     [\<lparr>hist_patient_id = Some ''BMW7812'',
       hist_columns = [(''Age'', Some ''67''), (''Heart Rate'', Some ''72''), (''Sex'', Some ''Male'')]\<rparr>,
      \<lparr>hist_patient_id = Some ''CZE1114'',
       hist_columns = [(''Age'', Some ''21''), (''Heart Rate'', Some ''98''), (''Sex'', Some ''Male'')]\<rparr>]"

definition entity_heart_rates :: "sim_row list \<Rightarrow> string option \<Rightarrow> int list" where
  "entity_heart_rates sim k = non_null (map heart_rate (filter (\<lambda>r. sim_patient_id r = k) sim))"

section \<open>The scoring handler (lambda/lambda_function.py, lambda/config.py)\<close>

subsection \<open>Configuration\<close>

definition ENDPOINT_NAME :: string where
  "ENDPOINT_NAME = ''xgb-heart-attack-endpoint-2025-11-24-01-04-04''"

definition BUCKET_NAME :: string where
  "BUCKET_NAME = ''healthcare-project-data-jayesh-devre''"

definition PROCESSED_PREFIX :: string where
  "PROCESSED_PREFIX = ''processed/final_health_dataset_csv/''"

definition FEATURE_LIST_KEY :: string where
  "FEATURE_LIST_KEY = ''preprocess/feature_list.txt''"

definition ALERT_TOPIC_ARN :: string where
  "ALERT_TOPIC_ARN = ''arn:aws:sns:us-east-1:381492296417:jayesh-devre-health-alerts''"

text \<open>
  Scores are Python floats. The model takes them as rationals: every finite float is
  one, and \<open>></\<close> on floats is the order of the numbers they denote. The literal
  \<open>0.45\<close> and the text \<open>0.45\<close> of a response denote the same float, as they denote
  the same rational here. NaN and the infinities, which \<open>float\<close> can also return, are
  left out: no comparison with them is \<open>True\<close>, so such a score is never above the
  threshold.
\<close>

definition ALERT_THRESHOLD :: rat where
  "ALERT_THRESHOLD = 45 / 100"

definition MAX_ROWS_TO_PROCESS :: nat where
  "MAX_ROWS_TO_PROCESS = 50"

subsection \<open>Collaborators\<close>

text \<open>
  The Python and pandas library functions the handler calls are parameters:
  \<open>splitlines\<close> and \<open>strip\<close> of \<open>str\<close>, \<open>csv.DictReader\<close> over the lines (its
  \<open>fieldnames\<close>, \<open>None\<close> for an empty file, and its rows), \<open>float\<close> (\<open>None\<close> where it
  raises \<open>ValueError\<close>), \<open>round\<close> to a number of decimals and \<open>str\<close> of a float.
\<close>

record 'n python =
  pandas :: "'n pandas"
  splitlines :: "string \<Rightarrow> string list"
  strip :: "string \<Rightarrow> string"
  dict_reader :: "string list \<Rightarrow> string list option \<times> 'n raw_record list"
  float_of :: "string \<Rightarrow> rat option"
  round_to :: "nat \<Rightarrow> rat \<Rightarrow> rat"
  float_str :: "rat \<Rightarrow> string"

datatype risk_status = HIGH_RISK | LOW_RISK

record 'n prediction =
  pred_patient_id :: "'n cell"
  pred_heart_attack_risk :: rat
  pred_risk_status :: risk_status
  pred_scored_at :: string

record 'n alert =
  alert_patient_id :: "'n cell"
  alert_risk_score :: rat
  alert_status :: risk_status

text \<open>
  The cloud services: the objects of the bucket (key and decoded text, in the order the
  listing returns them), the model endpoint (it receives the feature row, whose CSV
  line is the request body, and answers with the decoded response text), \<open>put_object\<close>
  (it receives the prediction table, whose CSV text is the object body) and
  \<open>publish\<close> with topic, message and subject; \<open>Some e\<close> is a raised exception. The
  clock gives the text of \<open>utcnow\<close> at each scored row and at the end of the loop.
\<close>

record 'n services =
  s3_objects :: "(string \<times> string) list"
  invoke_endpoint :: "string \<Rightarrow> 'n numeric_frame \<Rightarrow> error + string"
  put_object :: "string \<Rightarrow> 'n prediction list \<Rightarrow> error option"
  publish :: "string \<Rightarrow> string \<Rightarrow> string \<Rightarrow> error option"
  utcnow_isoformat :: "nat \<Rightarrow> string"
  utcnow_strftime :: string

text \<open>What a run does to the outside, in order: its prints and its two kinds of writes.\<close>

datatype 'n event =
    Print_invoked
  | Print_loaded nat
  | Print_using_file string
  | Print_columns nat "string list"
  | Print_risk_score "'n cell" rat
  | Print_alert "'n cell" rat
  | Put_object string "'n prediction list"
  | Print_saved string
  | Publish string string string
  | Print_sns_sent
  | Print_sns_failed error
  | Print_processed nat nat

text \<open>
  The handler's return value. \<open>body\<close> is the document that \<open>json.dumps\<close> serialises.
\<close>

datatype 'n body =
    Error_body string
  | Summary_body (processed_rows: nat) (alerts_triggered: nat)
      (alert_details: "'n alert list") (all_scores: "rat list")

record 'n response =
  statusCode :: nat
  body :: "'n body"

subsection \<open>Object store\<close>

definition startswith :: "string \<Rightarrow> string \<Rightarrow> bool" where
  "startswith p s = (take (length p) s = p)"

definition endswith :: "string \<Rightarrow> string \<Rightarrow> bool" where
  "endswith e s = (length e \<le> length s \<and> drop (length s - length e) s = e)"

text \<open>\<open>s3.get_object\<close>: the resource-not-found failure when there is no such key.\<close>

definition get_object :: "'n services \<Rightarrow> string \<Rightarrow> error + string" where
  "get_object W key =
     (case map_of (s3_objects W) key of None \<Rightarrow> Inl (NoSuchKey key) | Some text \<Rightarrow> Inr text)"

text \<open>\<open>s3.list_objects_v2(...).get("Contents", [])\<close>: one page, at most 1000 keys.\<close>

definition list_objects_v2 :: "'n services \<Rightarrow> string \<Rightarrow> string list" where
  "list_objects_v2 W p = take 1000 (filter (startswith p) (map fst (s3_objects W)))"

subsection \<open>\<open>load_feature_list\<close>\<close>

definition load_feature_list :: "'n python \<Rightarrow> 'n services \<Rightarrow> error + string list" where
  "load_feature_list L W =
     and_then (get_object W FEATURE_LIST_KEY) (\<lambda>text.
       let features = splitlines L text;
           features = map (strip L) (filter (\<lambda>f. strip L f \<noteq> []) features);
           features = (if ''Heart Attack Risk'' \<in> set features
                       then remove1 ''Heart Attack Risk'' features else features)
       in Inr features)"

subsection \<open>\<open>lambda_handler\<close>\<close>

text \<open>The loop variables, and the events of the run so far.\<close>

record 'n loop_state =
  results :: "rat list"
  alerts :: nat
  alert_list :: "'n alert list"
  predictions :: "'n prediction list"
  trace :: "'n event list"

definition risk_status_of :: "rat \<Rightarrow> risk_status" where
  "risk_status_of score = (if score > ALERT_THRESHOLD then HIGH_RISK else LOW_RISK)"

text \<open>One turn of the loop "Process rows", for the row \<open>row\<close> at index \<open>i\<close>.\<close>

definition score_row ::
  "'n python \<Rightarrow> 'n services \<Rightarrow> string list \<Rightarrow> nat \<Rightarrow> 'n raw_record \<Rightarrow> 'n loop_state \<Rightarrow>
   error + ('n::zero_neq_one) loop_state" where
  "score_row L W expected_features i row st =
     (let patient_id =
            (case map_of row ''Patient ID'' of
               None \<Rightarrow> Str (''Row'' @ str_nat (i + 1))
             | Some v \<Rightarrow> v)
      in and_then (preprocess_row (pandas L) row expected_features) (\<lambda>df_row.
           and_then (invoke_endpoint W ENDPOINT_NAME df_row) (\<lambda>text.
             let raw_result = strip L text in
             if raw_result \<noteq> [] then
               (case float_of L raw_result of
                  None \<Rightarrow> Inl (ValueError raw_result)
                | Some score \<Rightarrow>
                    let st1 = st\<lparr>results := results st @ [score],
                                 trace := trace st @ [Print_risk_score patient_id score],
                                 predictions := predictions st @
                                   [\<lparr>pred_patient_id = patient_id,
                                     pred_heart_attack_risk = round_to L 6 score,
                                     pred_risk_status = risk_status_of score,
                                     pred_scored_at = utcnow_isoformat W i @ ''Z''\<rparr>]\<rparr>
                    in if score > ALERT_THRESHOLD then
                         Inr (st1\<lparr>alerts := alerts st1 + 1,
                                  alert_list := alert_list st1 @
                                    [\<lparr>alert_patient_id = patient_id,
                                      alert_risk_score = round_to L 3 score,
                                      alert_status = HIGH_RISK\<rparr>],
                                  trace := trace st1 @ [Print_alert patient_id score]\<rparr>)
                       else Inr st1)
             else Inr st)))"

fun score_rows ::
  "'n python \<Rightarrow> 'n services \<Rightarrow> string list \<Rightarrow> nat \<Rightarrow> 'n raw_record list \<Rightarrow> 'n loop_state \<Rightarrow>
   error + ('n::zero_neq_one) loop_state" where
  "score_rows L W expected_features i [] st = Inr st"
| "score_rows L W expected_features i (row # rows) st =
     and_then (score_row L W expected_features i row st)
       (score_rows L W expected_features (i + 1) rows)"

text \<open>The block "Save predictions summary to S3".\<close>

definition save_predictions :: "'n services \<Rightarrow> 'n loop_state \<Rightarrow> error + 'n loop_state" where
  "save_predictions W st =
     (let pred_key = ''predictions/heart_attack_predictions_'' @ utcnow_strftime W @ ''.csv''
      in if predictions st \<noteq> [] then
           (case put_object W pred_key (predictions st) of
              Some e \<Rightarrow> Inl e
            | None \<Rightarrow>
                Inr (st\<lparr>trace := trace st @
                  [Put_object pred_key (predictions st), Print_saved pred_key]\<rparr>))
         else Inr st)"

text \<open>
  The block "Send SNS notification for high-risk patients": the \<open>try\<close> catches every
  exception of \<open>publish\<close> and prints it.
\<close>

definition alert_message :: "'n python \<Rightarrow> nat \<Rightarrow> 'n alert list \<Rightarrow> string" where
  "alert_message L n details =
     str_nat n @ '' High-Risk Patients Detected:'' @ [CHR 0x0A] @
     join_with [CHR 0x0A]
       (map (\<lambda>a. cell_text (pandas L) (alert_patient_id a) @ '': '' @
                 float_str L (alert_risk_score a)) details)"

definition send_notification :: "'n python \<Rightarrow> 'n services \<Rightarrow> 'n loop_state \<Rightarrow> 'n loop_state" where
  "send_notification L W st =
     (if alerts st > 0 then
        (let message = alert_message L (alerts st) (alert_list st);
             subject = ''Heart Health Alert Triggered''
         in case publish W ALERT_TOPIC_ARN message subject of
              None \<Rightarrow>
                st\<lparr>trace := trace st @ [Publish ALERT_TOPIC_ARN message subject, Print_sns_sent]\<rparr>
            | Some e \<Rightarrow>
                st\<lparr>trace := trace st @
                  [Publish ALERT_TOPIC_ARN message subject, Print_sns_failed e]\<rparr>)
      else st)"

definition lambda_handler ::
  "'n python \<Rightarrow> 'n services \<Rightarrow> error + ('n response \<times> ('n::zero_neq_one) event list)" where
  "lambda_handler L W =
     and_then (load_feature_list L W) (\<lambda>expected_features.
       let objects = list_objects_v2 W PROCESSED_PREFIX;
           csv_files = filter (endswith ''.csv'') objects;
           started = [Print_invoked, Print_loaded (length expected_features)]
       in if csv_files = [] then
            Inr (\<lparr>statusCode = 404, body = Error_body ''No CSV file found.''\<rparr>, started)
          else
            let csv_key = hd csv_files in
            and_then (get_object W csv_key) (\<lambda>text.
              let data = splitlines L text;
                  (fieldnames, rows) = dict_reader L data
              in case fieldnames of
                   None \<Rightarrow> Inl (TypeError ''object of type NoneType has no len()'')
                 | Some names \<Rightarrow>
                     and_then
                       (score_rows L W expected_features 0 (take MAX_ROWS_TO_PROCESS rows)
                          \<lparr>results = [], alerts = 0, alert_list = [], predictions = [],
                           trace = started @
                             [Print_using_file csv_key, Print_columns (length names) names]\<rparr>)
                       (\<lambda>st.
                          and_then (save_predictions W st) (\<lambda>st.
                            let st = send_notification L W st
                            in Inr (\<lparr>statusCode = 200,
                                     body = Summary_body (length rows) (alerts st) (alert_list st)
                                       (results st)\<rparr>,
                                    trace st @ [Print_processed (length rows) (alerts st)])))))"

subsection \<open>A small instance of the collaborators\<close>

text \<open>
  For running the handler on examples: plain readings of the library functions on
  ASCII text without quoting (lines end with a line feed, fields are separated by
  commas, numbers are decimal literals), and a bucket with a feature list and one
  combined table of two rows. The endpoint answers \<open>0.50\<close> for the first row and
  \<open>0.45\<close> for the second; publishing fails.
\<close>

fun split_all :: "char \<Rightarrow> string \<Rightarrow> string list" where
  "split_all sep [] = [[]]"
| "split_all sep (c # cs) =
     (if c = sep then [] # split_all sep cs
      else (case split_all sep cs of [] \<Rightarrow> [[c]] | p # ps \<Rightarrow> (c # p) # ps))"

definition ascii_splitlines :: "string \<Rightarrow> string list" where
  "ascii_splitlines s =
     (let ps = split_all (CHR 0x0A) s in if last ps = [] then butlast ps else ps)"

definition ascii_strip :: "string \<Rightarrow> string" where
  "ascii_strip s =
     (let sp = (\<lambda>c. c \<in> set [CHR '' '', CHR 0x09, CHR 0x0A, CHR 0x0D])
      in rev (dropWhile sp (rev (dropWhile sp s))))"

definition plain_dict_reader :: "string list \<Rightarrow> string list option \<times> 'n raw_record list" where
  "plain_dict_reader ls =
     (case ls of
        [] \<Rightarrow> (None, [])
      | h # rest \<Rightarrow>
          (let names = split_all (CHR '','') h
           in (Some names, map (\<lambda>l. zip names (map Str (split_all (CHR '','') l))) rest)))"

definition decimal_literal :: "string \<Rightarrow> rat option" where
  "decimal_literal s =
     (case split_once (CHR ''.'') s of
        [w] \<Rightarrow> map_option of_int (int_literal w)
      | [w, f] \<Rightarrow>
          (case (int_literal w, digits_value 0 f) of
             (Some a, Some b) \<Rightarrow>
               if f = [] \<or> a < 0 then None else Some (of_int a + of_nat b / 10 ^ length f)
           | _ \<Rightarrow> None)
      | _ \<Rightarrow> None)"

definition decimal_str :: "rat \<Rightarrow> string" where
  "decimal_str x =
     (let w = \<lfloor>x\<rfloor>;
          f = nat \<lfloor>(x - of_int w) * 1000\<rfloor>;
          ds = [digit_char (f div 100), digit_char (f div 10 mod 10), digit_char (f mod 10)];
          ds = rev (dropWhile (\<lambda>c. c = CHR ''0'') (rev ds))
      in str_int w @ ''.'' @ (if ds = [] then ''0'' else ds))"

definition example_python :: "int python" where
  "example_python =
     \<lparr>pandas = int_pandas, splitlines = ascii_splitlines, strip = ascii_strip,
      dict_reader = plain_dict_reader, float_of = decimal_literal,
      round_to = round_half_up, float_str = decimal_str\<rparr>"

definition example_objects :: "(string \<times> string) list" where
  "example_objects =
     [(''preprocess/feature_list.txt'',
       concat (map (\<lambda>l. l @ [CHR 0x0A])
         [''Age'', ''BP_Systolic'', ''BP_Diastolic'', ''Sex_Male'', ''Diet_Healthy'',
          ''Heart Attack Risk''])),
      (''processed/final_health_dataset_csv/part-00000.csv'',
       concat (map (\<lambda>l. l @ [CHR 0x0A])
         [''Patient ID,Age,Sex,Diet,Blood Pressure'',
          ''BMW7812,67,Male,Healthy,130/85'',
          ''CZE1114,21,Male,Unhealthy,120/80'']))]"

definition example_services :: "int services" where
  "example_services =
     \<lparr>s3_objects = example_objects,
      invoke_endpoint =
        (\<lambda>name df_row. if map_of df_row ''Age'' = Some [67] then Inr ''0.50'' else Inr ''0.45''),
      put_object = (\<lambda>key table. None),
      publish = (\<lambda>topic message subject. Some (ClientError ''AuthorizationError'')),
      utcnow_isoformat = (\<lambda>i. ''2025-11-24T01:04:04''),
      utcnow_strftime = ''20251124_010405''\<rparr>"

subsection \<open>Reading a run\<close>

text \<open>The notifications and the stored tables of a trace, in order.\<close>

definition publishes :: "'n event list \<Rightarrow> (string \<times> string \<times> string) list" where
  "publishes tr = concat (map (\<lambda>e. case e of Publish t m s \<Rightarrow> [(t, m, s)] | _ \<Rightarrow> []) tr)"

definition puts :: "'n event list \<Rightarrow> (string \<times> 'n prediction list) list" where
  "puts tr = concat (map (\<lambda>e. case e of Put_object k ps \<Rightarrow> [(k, ps)] | _ \<Rightarrow> []) tr)"

text \<open>
  What holds of the loop variables after every turn: one prediction per score, with
  its label and its rounded score; one alert per score above the threshold, in order;
  nothing published or stored yet.
\<close>

definition loop_invariant :: "'n python \<Rightarrow> 'n loop_state \<Rightarrow> bool" where
  "loop_invariant L st \<longleftrightarrow>
     alerts st = length (alert_list st) \<and>
     map pred_risk_status (predictions st) = map risk_status_of (results st) \<and>
     map pred_heart_attack_risk (predictions st) = map (round_to L 6) (results st) \<and>
     map alert_risk_score (alert_list st) =
       map (round_to L 3) (filter (\<lambda>s. s > ALERT_THRESHOLD) (results st)) \<and>
     map alert_patient_id (alert_list st) =
       map pred_patient_id (filter (\<lambda>p. pred_risk_status p = HIGH_RISK) (predictions st)) \<and>
     publishes (trace st) = [] \<and> puts (trace st) = []"

text \<open>What the handler returns and does on the small instance.\<close>

definition example_alerts :: "int alert list" where
  "example_alerts =
     [\<lparr>alert_patient_id = Str ''BMW7812'', alert_risk_score = 1 / 2, alert_status = HIGH_RISK\<rparr>]"

definition example_predictions :: "int prediction list" where
  "example_predictions =
     [\<lparr>pred_patient_id = Str ''BMW7812'', pred_heart_attack_risk = 1 / 2,
       pred_risk_status = HIGH_RISK, pred_scored_at = ''2025-11-24T01:04:04Z''\<rparr>,
      \<lparr>pred_patient_id = Str ''CZE1114'', pred_heart_attack_risk = 9 / 20,
       pred_risk_status = LOW_RISK, pred_scored_at = ''2025-11-24T01:04:04Z''\<rparr>]"

definition example_response :: "int response" where
  "example_response =
     \<lparr>statusCode = 200, body = Summary_body 2 1 example_alerts [1 / 2, 9 / 20]\<rparr>"

definition example_trace :: "int event list" where
  "example_trace =
     [Print_invoked, Print_loaded 5,
      Print_using_file ''processed/final_health_dataset_csv/part-00000.csv'',
      Print_columns 5 [''Patient ID'', ''Age'', ''Sex'', ''Diet'', ''Blood Pressure''],
      Print_risk_score (Str ''BMW7812'') (1 / 2),
      Print_alert (Str ''BMW7812'') (1 / 2),
      Print_risk_score (Str ''CZE1114'') (9 / 20),
      Put_object ''predictions/heart_attack_predictions_20251124_010405.csv'' example_predictions,
      Print_saved ''predictions/heart_attack_predictions_20251124_010405.csv'',
      Publish ALERT_TOPIC_ARN (alert_message example_python 1 example_alerts)
        ''Heart Health Alert Triggered'',
      Print_sns_failed (ClientError ''AuthorizationError''),
      Print_processed 2 1]"

section \<open>Properties of \<open>preprocess_row\<close>\<close>

subsection \<open>Frames as lookups\<close>

lemma and_then_Inr [simp]: "and_then (Inr x) f = f x"
  by (simp add: and_then_def)

lemma and_then_Inl [simp]: "and_then (Inl e) f = Inl e"
  by (simp add: and_then_def)

lemma map_of_None_columns: "map_of df c = None \<longleftrightarrow> c \<notin> set (columns df)"
  by (simp add: columns_def map_of_eq_None_iff)

lemma get_col_present:
  "c \<in> set (columns df) \<Longrightarrow> \<exists>v. map_of df c = Some v \<and> get_col df c = Inr v"
  by (cases "map_of df c") (auto simp: get_col_def map_of_None_columns)

lemma get_col_absent: "c \<notin> set (columns df) \<Longrightarrow> get_col df c = Inl (KeyError c)"
  by (simp add: get_col_def map_of_None_columns [symmetric])

lemma map_of_replace:
  "map_of (map (\<lambda>(k, x). if k = c then (k, v) else (k, x)) df) k =
     (if k = c then map_option (\<lambda>_. v) (map_of df k) else map_of df k)"
  by (induction df) auto

lemma map_of_set_col: "map_of (set_col c v df) k = (if k = c then Some v else map_of df k)"
proof (cases "c \<in> set (columns df)")
  case True
  then obtain w where "map_of df c = Some w"
    using get_col_present by blast
  with True show ?thesis
    by (simp add: set_col_def map_of_replace)
next
  case False
  then have "map_of df c = None"
    by (simp add: map_of_None_columns)
  with False show ?thesis
    by (auto simp: set_col_def map_add_def split: option.splits)
qed

lemma columns_replace:
  "columns (map (\<lambda>(k, x). if k = c then (k, v) else (k, x)) df) = columns df"
  by (induction df) (auto simp: columns_def)

lemma columns_set_col: "set (columns (set_col c v df)) = insert c (set (columns df))"
  by (auto simp: set_col_def columns_replace) (auto simp: columns_def)

lemma map_of_drop_columns:
  "map_of (drop_columns cs df) k = (if k \<in> set cs then None else map_of df k)"
  by (induction df) (auto simp: drop_columns_def)


lemma map_of_DataFrame: "map_of (DataFrame row) c = map_option column_of_cell (map_of row c)"
  by (induction row) (auto simp: DataFrame_def)

lemma columns_DataFrame: "columns (DataFrame row) = columns row"
  by (simp add: DataFrame_def columns_def case_prod_unfold comp_def)

lemma map_of_coerce_fillna:
  "map_of (coerce_fillna P df) c = map_option (\<lambda>col. fillna0 (to_numeric_coerce P col)) (map_of df c)"
  by (induction df) (auto simp: coerce_fillna_def)

lemma columns_coerce_fillna: "columns (coerce_fillna P df) = columns df"
  by (simp add: coerce_fillna_def columns_def case_prod_unfold comp_def)

lemma map_of_align_features:
  "map_of (align_features n F df) c =
     (case map_of df c of
        Some v \<Rightarrow> Some v
      | None \<Rightarrow> if c \<in> set F then Some (replicate n 0) else None)"
proof (induction F arbitrary: df)
  case Nil
  then show ?case by (simp split: option.splits)
next
  case (Cons a F)
  show ?case
    by (auto simp: Cons.IH map_of_set_col map_of_None_columns [symmetric] split: option.splits)
qed

lemma select_columns_total:
  "\<forall>c\<in>set cs. map_of df c \<noteq> None \<Longrightarrow>
     select_columns df cs = Inr (map (\<lambda>c. (c, the (map_of df c))) cs)"
  by (induction cs) auto

lemma select_columns_names: "select_columns df cs = Inr r \<Longrightarrow> columns r = cs"
  by (induction cs arbitrary: r) (auto simp: columns_def split: option.splits sum.splits)

lemma select_aligned:
  assumes "z = replicate n 0"
  shows "select_columns (align_features n F df) F =
     Inr (map (\<lambda>c. (c, case map_of df c of Some v \<Rightarrow> v | None \<Rightarrow> z)) F)"
proof -
  have "\<forall>c\<in>set F. map_of (align_features n F df) c \<noteq> None"
    by (simp add: map_of_align_features split: option.splits)
  then have "select_columns (align_features n F df) F =
      Inr (map (\<lambda>c. (c, the (map_of (align_features n F df) c))) F)"
    by (rule select_columns_total)
  also have "map (\<lambda>c. (c, the (map_of (align_features n F df) c))) F =
      map (\<lambda>c. (c, case map_of df c of Some v \<Rightarrow> v | None \<Rightarrow> z)) F"
    by (rule map_cong) (auto simp: map_of_align_features assms split: option.splits)
  finally show ?thesis .
qed

lemma astype_str_cell: "astype_str P (column_of_cell v) = [cell_text P v]"
  by (cases v) auto

lemma str_split_expand_one:
  "str_split_expand [s] =
     (if CHR ''/'' \<in> set s
      then [[Some (takeWhile (\<lambda>c. c \<noteq> CHR ''/'') s)], [Some (tl (dropWhile (\<lambda>c. c \<noteq> CHR ''/'') s))]]
      else [[Some s]])"
  by (simp add: str_split_expand_def split_once_def Let_def upt_rec)

lemma split_blood_pressure_DataFrame:
  "split_blood_pressure P (DataFrame row) =
     (case map_of row ''Blood Pressure'' of
        None \<Rightarrow> Inr (DataFrame row)
      | Some v \<Rightarrow>
          if CHR ''/'' \<in> set (cell_text P v)
          then Inr (drop_columns [''Blood Pressure'']
                 (set_col ''BP_Diastolic''
                    (NumCol [to_numeric P (tl (dropWhile (\<lambda>c. c \<noteq> CHR ''/'') (cell_text P v)))])
                 (set_col ''BP_Systolic''
                    (NumCol [to_numeric P (takeWhile (\<lambda>c. c \<noteq> CHR ''/'') (cell_text P v))])
                    (DataFrame row))))
          else Inl (KeyError ''1''))"
proof (cases "map_of row ''Blood Pressure''")
  case None
  then have "''Blood Pressure'' \<notin> set (columns (DataFrame row))"
    by (simp add: columns_DataFrame map_of_None_columns)
  with None show ?thesis
    by (simp add: split_blood_pressure_def)
next
  case (Some v)
  then have in_cols: "''Blood Pressure'' \<in> set (columns (DataFrame row))"
    using map_of_None_columns [of row "''Blood Pressure''"] by (simp add: columns_DataFrame)
  have col: "get_col (DataFrame row) ''Blood Pressure'' = Inr (column_of_cell v)"
    by (simp add: get_col_def map_of_DataFrame Some)
  show ?thesis
    by (simp add: split_blood_pressure_def in_cols col Some astype_str_cell
        str_split_expand_one Let_def)
qed

lemma encode_categoricals_eq:
  "encode_categoricals P df =
     (case map_of df ''Sex'' of
        None \<Rightarrow> Inl (KeyError ''Sex'')
      | Some sex \<Rightarrow>
          (case map_of df ''Diet'' of
             None \<Rightarrow> Inl (KeyError ''Diet'')
           | Some diet \<Rightarrow>
               Inr (drop_columns [''Sex'', ''Diet'']
                 (set_col ''Diet_Unhealthy'' (indicator P diet ''unhealthy'')
                 (set_col ''Diet_Healthy'' (indicator P diet ''healthy'')
                 (set_col ''Sex_Male'' (indicator P sex ''male'') df))))))"
  by (simp add: encode_categoricals_def get_col_def map_of_set_col Let_def
      split: option.splits)

lemma preprocess_row_eq:
  "preprocess_row P row F =
     (case split_blood_pressure P (DataFrame row) of
        Inl e \<Rightarrow> Inl e
      | Inr df \<Rightarrow>
          (case encode_categoricals P (drop_columns identifier_columns df) of
             Inl e \<Rightarrow> Inl e
           | Inr df' \<Rightarrow>
               Inr (map (\<lambda>c. (c, case map_of (coerce_fillna P df') c of
                                    Some v \<Rightarrow> v | None \<Rightarrow> [0])) F)))"
  by (simp add: preprocess_row_def and_then_def Let_def select_aligned [where z = "[0]"]
      split: sum.splits)

lemma map_of_tabulate: "map_of (map (\<lambda>c. (c, f c)) F) c = (if c \<in> set F then Some (f c) else None)"
  by (induction F) auto

lemma columns_tabulate: "columns (map (\<lambda>c. (c, f c)) F) = F"
  by (simp add: columns_def comp_def)

lemmas frame_lookup =
  map_of_tabulate map_of_coerce_fillna map_of_drop_columns map_of_set_col map_of_DataFrame

text \<open>
  Claim C2, as amended. For every raw record that has the fields \<open>Sex\<close> and \<open>Diet\<close>
  and whose \<open>Blood Pressure\<close> field, when there is one, contains a \<open>/\<close>, and for
  every feature schema, \<open>preprocess_row\<close> returns a feature vector whose names are
  exactly the schema, in the schema's order; every schema name that cannot be derived
  from the record has the value 0.
\<close>

theorem preprocess_row_schema:
  assumes sex: "''Sex'' \<in> set (columns row)"
    and diet: "''Diet'' \<in> set (columns row)"
    and bp: "\<forall>v. map_of row ''Blood Pressure'' = Some v \<longrightarrow> CHR ''/'' \<in> set (cell_text P v)"
  shows "\<exists>fv. preprocess_row P row F = Inr fv \<and> columns fv = F \<and>
           (\<forall>c\<in>set F. c \<notin> derived_names row \<longrightarrow> map_of fv c = Some [0])"
proof -
  obtain sexv dietv where sv: "map_of row ''Sex'' = Some sexv" "map_of row ''Diet'' = Some dietv"
    using sex diet get_col_present by blast
  have absent: "\<And>c. c \<notin> set (columns row) \<Longrightarrow> map_of row c = None"
    by (simp add: map_of_None_columns)
  show ?thesis
  proof (cases "map_of row ''Blood Pressure''")
    case None
    then have nobp: "''Blood Pressure'' \<notin> set (columns row)"
      by (simp add: map_of_None_columns)
    show ?thesis
      by (auto simp: preprocess_row_eq split_blood_pressure_DataFrame None encode_categoricals_eq
          frame_lookup sv identifier_columns_def columns_tabulate derived_names_def nobp absent)
  next
    case (Some v)
    then have hasbp: "''Blood Pressure'' \<in> set (columns row)"
      using absent by fastforce
    from Some bp have slash: "CHR ''/'' \<in> set (cell_text P v)"
      by simp
    show ?thesis
      by (auto simp: preprocess_row_eq split_blood_pressure_DataFrame Some slash
          encode_categoricals_eq frame_lookup sv identifier_columns_def columns_tabulate
          derived_names_def hasbp absent)
  qed
qed





text \<open>
  Claim C10. A record without \<open>Sex\<close> or without \<open>Diet\<close> makes \<open>preprocess_row\<close>
  fail with a \<open>KeyError\<close>; no indicator feature is defaulted to 0. The key is the
  missing field (\<open>Sex\<close> is looked up first) unless the blood-pressure block has
  failed before. The identifier columns and \<open>Blood Pressure\<close> may be absent: a record
  with \<open>Sex\<close> and \<open>Diet\<close> and no \<open>Blood Pressure\<close> is preprocessed without error.
\<close>

theorem sex_and_diet_required:
  "(''Sex'' \<notin> set (columns row) \<or> ''Diet'' \<notin> set (columns row) \<longrightarrow>
      (\<exists>k\<in>{''Sex'', ''Diet'', ''1''}. preprocess_row P row F = Inl (KeyError k))) \<and>
   (''Blood Pressure'' \<notin> set (columns row) \<and> ''Sex'' \<notin> set (columns row) \<longrightarrow>
      preprocess_row P row F = Inl (KeyError ''Sex'')) \<and>
   (''Blood Pressure'' \<notin> set (columns row) \<and> ''Sex'' \<in> set (columns row) \<and>
    ''Diet'' \<notin> set (columns row) \<longrightarrow>
      preprocess_row P row F = Inl (KeyError ''Diet'')) \<and>
   (''Blood Pressure'' \<notin> set (columns row) \<and> ''Sex'' \<in> set (columns row) \<and>
    ''Diet'' \<in> set (columns row) \<longrightarrow>
      (\<exists>fv. preprocess_row P row F = Inr fv))"
  by (auto simp: preprocess_row_eq split_blood_pressure_DataFrame encode_categoricals_eq
      frame_lookup identifier_columns_def map_of_None_columns [symmetric]
      split: option.splits)

theorem sex_and_diet_required_witness:
  "preprocess_row int_pandas [(''Age'', Str ''67''), (''Diet'', Str ''Healthy'')] [''Age''] =
     Inl (KeyError ''Sex'') \<and>
   preprocess_row int_pandas [(''Age'', Str ''67''), (''Sex'', Str ''Male'')] [''Age''] =
     Inl (KeyError ''Diet'') \<and>
   (\<exists>fv. preprocess_row int_pandas [(''Sex'', Str ''Male''), (''Diet'', Str ''Healthy'')] [''Age'']
      = Inr fv)"
  using sex_and_diet_required [of "[(''Age'', Str ''67''), (''Diet'', Str ''Healthy'')]" int_pandas "[''Age'']"]
    sex_and_diet_required [of "[(''Age'', Str ''67''), (''Sex'', Str ''Male'')]" int_pandas "[''Age'']"]
    sex_and_diet_required [of "[(''Sex'', Str ''Male''), (''Diet'', Str ''Healthy'')]" int_pandas "[''Age'']"]
  by (simp add: columns_def)

text \<open>
  Claim C4 fails on the code: a \<open>Blood Pressure\<close> value without \<open>/\<close> splits into a
  frame with the single column \<open>0\<close>, so \<open>bp[1]\<close> raises \<open>KeyError\<close> and no feature
  vector is returned.
\<close>

theorem blood_pressure_without_slash:
  "preprocess_row P
     [(''Blood Pressure'', Str ''120''), (''Sex'', Str ''Male''), (''Diet'', Str ''Healthy'')] F =
   Inl (KeyError ''1'')"
  by (simp add: preprocess_row_eq split_blood_pressure_DataFrame)

text \<open>
  The rest of that claim holds: where the record has \<open>Sex\<close> and \<open>Diet\<close> and the
  blood-pressure block succeeds, a field whose text is no number, or whose value is
  \<open>None\<close>, has the feature value 0.
\<close>

lemma unparsable_field_is_zero:
  assumes sex: "''Sex'' \<in> set (columns row)"
    and diet: "''Diet'' \<in> set (columns row)"
    and bp: "\<forall>v. map_of row ''Blood Pressure'' = Some v \<longrightarrow> CHR ''/'' \<in> set (cell_text P v)"
    and field: "map_of row c = Some NoneV \<or> (\<exists>s. map_of row c = Some (Str s) \<and> to_numeric P s = None)"
    and c: "c \<in> set F"
      "c \<notin> {''BP_Systolic'', ''BP_Diastolic'', ''Sex_Male'', ''Diet_Healthy'', ''Diet_Unhealthy''}"
  shows "\<exists>fv. preprocess_row P row F = Inr fv \<and> map_of fv c = Some [0]"
proof -
  obtain sexv dietv where sv: "map_of row ''Sex'' = Some sexv" "map_of row ''Diet'' = Some dietv"
    using sex diet get_col_present by blast
  show ?thesis
  proof (cases "map_of row ''Blood Pressure''")
    case None
    with field c show ?thesis
      by (auto simp: preprocess_row_eq split_blood_pressure_DataFrame encode_categoricals_eq
          frame_lookup sv identifier_columns_def fillna0_def)
  next
    case (Some v)
    with bp have slash: "CHR ''/'' \<in> set (cell_text P v)"
      by simp
    from field c show ?thesis
      by (auto simp: preprocess_row_eq split_blood_pressure_DataFrame Some slash
          encode_categoricals_eq frame_lookup sv identifier_columns_def fillna0_def)
  qed
qed

text \<open>
  Claim C2 as stated fails: a record without \<open>Sex\<close> yields no feature vector.
\<close>

theorem preprocess_row_schema_counterexample:
  "preprocess_row int_pandas [(''Age'', Str ''67''), (''Blood Pressure'', Str ''130/85'')]
     [''Age'', ''BP_Systolic''] = Inl (KeyError ''Sex'')"
  by code_simp

theorem preprocess_row_schema_witness:
  "''Sex'' \<in> set (columns example_row) \<and> ''Diet'' \<in> set (columns example_row) \<and>
   (\<exists>fv. preprocess_row int_pandas example_row [''Age'', ''Unknown''] = Inr fv \<and>
      columns fv = [''Age'', ''Unknown''] \<and> map_of fv ''Unknown'' = Some [0])"
proof -
  have cols: "''Sex'' \<in> set (columns example_row) \<and> ''Diet'' \<in> set (columns example_row)"
    by (simp add: example_row_def columns_def)
  have bp: "\<forall>v. map_of example_row ''Blood Pressure'' = Some v \<longrightarrow>
      CHR ''/'' \<in> set (cell_text int_pandas v)"
    by (simp add: example_row_def)
  have un: "''Unknown'' \<notin> derived_names example_row"
    by (simp add: derived_names_def example_row_def columns_def identifier_columns_def)
  from preprocess_row_schema [OF conjunct1 [OF cols] conjunct2 [OF cols] bp, of "[''Age'', ''Unknown'']"]
    cols un
  show ?thesis
    by auto
qed

section \<open>The training path against the scoring path\<close>
















section \<open>Properties of the aggregation job\<close>

lemma agg_ids: "map agg_patient_id (agg sim) = remdups (map sim_patient_id sim)"
  by (simp add: agg_def aggregate_group_def Let_def comp_def)

lemma join_left_ids:
  "set (map final_patient_id (join_left left right)) = set (map agg_patient_id left)"
proof (induction left)
  case Nil
  then show ?case by (simp add: join_left_def)
next
  case (Cons a left)
  have "join_left (a # left) right =
      (let ms = filter (\<lambda>h. agg_patient_id a \<noteq> None \<and> hist_patient_id h = agg_patient_id a) right
       in if ms = [] then [\<lparr>vitals = a, history = None\<rparr>]
          else map (\<lambda>h. \<lparr>vitals = a, history = Some (hist_columns h)\<rparr>) ms) @ join_left left right"
    by (simp add: join_left_def)
  moreover have "set (map final_patient_id
      (let ms = filter (\<lambda>h. agg_patient_id a \<noteq> None \<and> hist_patient_id h = agg_patient_id a) right
       in if ms = [] then [\<lparr>vitals = a, history = None\<rparr>]
          else map (\<lambda>h. \<lparr>vitals = a, history = Some (hist_columns h)\<rparr>) ms)) = {agg_patient_id a}"
    by (cases "filter (\<lambda>h. agg_patient_id a \<noteq> None \<and> hist_patient_id h = agg_patient_id a) right")
      (auto simp: final_patient_id_def Let_def)
  ultimately show ?case
    using Cons.IH by simp
qed

lemma final_ids: "set (map final_patient_id (final sim hist)) = set (map sim_patient_id sim)"
proof -
  have "set (map final_patient_id (final sim hist)) = set (map agg_patient_id (agg sim))"
    unfolding final_def by (rule join_left_ids)
  then show ?thesis
    by (simp add: agg_ids)
qed

text \<open>
  Claim C5. An entity of the historical table that has no row in the simulated-vitals
  table has no row in the combined table: the join is driven by the aggregated vitals,
  so the combined table has exactly the identifiers of the simulated table.
\<close>

theorem historical_only_entity_not_in_output:
  assumes "k \<in> set (map hist_patient_id hist)"
    and "k \<notin> set (map sim_patient_id sim)"
  shows "k \<notin> set (map final_patient_id (final sim hist))"
  using assms(2) by (simp only: final_ids not_False_eq_True)

theorem historical_only_entity_not_in_output_witness:
  "Some ''CZE1114'' \<in> set (map hist_patient_id example_hist) \<and>
   Some ''CZE1114'' \<notin> set (map sim_patient_id example_week) \<and>
   Some ''CZE1114'' \<notin> set (map final_patient_id (final example_week example_hist))"
proof -
  have h: "Some ''CZE1114'' \<in> set (map hist_patient_id example_hist)"
    by (simp add: example_hist_def)
  have s: "Some ''CZE1114'' \<notin> set (map sim_patient_id example_week)"
    by (simp add: example_week_def reading_def)
  from historical_only_entity_not_in_output [OF h s] h s show ?thesis
    by simp
qed

lemma round_half_up_nearest:
  "\<exists>z::int. round_half_up 0 x = of_int z \<and> \<bar>of_int z - x\<bar> \<le> 1 / 2"
proof (cases "x < 0")
  case True
  define z where "z = \<lfloor>- x + 1 / 2\<rfloor>"
  have r: "round_half_up 0 x = of_int (- z)"
    using True by (simp add: round_half_up_def z_def)
  have "of_int z \<le> - x + 1 / 2" "- x + 1 / 2 < of_int z + 1"
    unfolding z_def by linarith+
  then have "\<bar>- rat_of_int z - x\<bar> \<le> 1 / 2"
    by linarith
  then have "\<bar>of_int (- z) - x\<bar> \<le> 1 / 2"
    by (simp only: of_int_minus)
  with r show ?thesis by blast
next
  case False
  define z where "z = \<lfloor>x + 1 / 2\<rfloor>"
  have r: "round_half_up 0 x = of_int z"
    using False by (simp add: round_half_up_def z_def)
  have "of_int z \<le> x + 1 / 2" "x + 1 / 2 < of_int z + 1"
    unfolding z_def by linarith+
  then have "\<bar>of_int z - x\<bar> \<le> 1 / 2"
    by linarith
  with r show ?thesis by blast
qed

lemma of_int_sum_list_rat: "rat_of_int (sum_list hs) = sum_list (map of_int hs)"
  by (induction hs) auto

lemma non_null_map_option: "non_null (map (\<lambda>r. map_option f (g r)) rs) = map f (non_null (map g rs))"
  by (induction rs) (auto simp: non_null_def)

lemma agg_member:
  "a \<in> set (agg sim) \<Longrightarrow>
     a = aggregate_group (agg_patient_id a) (filter (\<lambda>r. sim_patient_id r = agg_patient_id a) sim)"
  by (auto simp: agg_def aggregate_group_def Let_def)

text \<open>
  Claim C6. The weekly heart rate of an entity is the mean of its readings rounded to a
  nearest integer (at most one half away from the mean), and null when it has no
  reading. The seven readings 60, 70, 80, 90, 100, 110, 60 give 81; the two readings
  60 and 61 give 61, where truncation would give 60.
\<close>

theorem weekly_heart_rate_rounded:
  "(a \<in> set (agg sim) \<longrightarrow>
      (entity_heart_rates sim (agg_patient_id a) = [] \<longrightarrow> agg_heart_rate a = None) \<and>
      (entity_heart_rates sim (agg_patient_id a) \<noteq> [] \<longrightarrow>
         (\<exists>z::int. agg_heart_rate a = Some (of_int z) \<and>
            \<bar>rat_of_int z - of_int (sum_list (entity_heart_rates sim (agg_patient_id a))) /
               of_nat (length (entity_heart_rates sim (agg_patient_id a)))\<bar> \<le> 1 / 2))) \<and>
   map agg_heart_rate (agg example_week) = [Some 81] \<and>
   map agg_heart_rate (agg [reading ''BMW7812'' 60, reading ''BMW7812'' 61]) = [Some 61]"
proof -
  have general: "(entity_heart_rates sim (agg_patient_id a) = [] \<longrightarrow> agg_heart_rate a = None) \<and>
      (entity_heart_rates sim (agg_patient_id a) \<noteq> [] \<longrightarrow>
         (\<exists>z::int. agg_heart_rate a = Some (of_int z) \<and>
            \<bar>rat_of_int z - of_int (sum_list (entity_heart_rates sim (agg_patient_id a))) /
               of_nat (length (entity_heart_rates sim (agg_patient_id a)))\<bar> \<le> 1 / 2))"
    if mem: "a \<in> set (agg sim)"
  proof -
    define g where "g = filter (\<lambda>r. sim_patient_id r = agg_patient_id a) sim"
    define hs where "hs = entity_heart_rates sim (agg_patient_id a)"
    have a: "agg_heart_rate a =
        map_option (round_half_up 0) (avg (map (\<lambda>r. map_option of_int (heart_rate r)) g))"
      using agg_member [OF mem] unfolding g_def
      by (metis (no_types, lifting) aggregate_group_def agg_row.select_convs(2))
    have nn: "non_null (map (\<lambda>r. map_option rat_of_int (heart_rate r)) g) = map of_int hs"
      by (simp add: non_null_map_option hs_def entity_heart_rates_def g_def)
    have av: "avg (map (\<lambda>r. map_option of_int (heart_rate r)) g) =
        (if hs = [] then None else Some (of_int (sum_list hs) / of_nat (length hs)))"
      by (simp add: avg_def nn Let_def of_int_sum_list_rat)
    show ?thesis
      using round_half_up_nearest [of "of_int (sum_list hs) / of_nat (length hs)"]
      by (auto simp: a av hs_def [symmetric])
  qed
  have ex1: "map agg_heart_rate (agg example_week) = [Some 81]"
    by code_simp
  have ex2: "map agg_heart_rate (agg [reading ''BMW7812'' 60, reading ''BMW7812'' 61]) = [Some 61]"
    by code_simp
  from general ex1 ex2 show ?thesis by blast
qed


theorem weekly_heart_rate_rounded_witness:
  "aggregate_group (Some ''BMW7812'') example_week \<in> set (agg example_week) \<and>
   entity_heart_rates example_week (Some ''BMW7812'') = [60, 70, 80, 90, 100, 110, 60] \<and>
   (\<exists>z::int. agg_heart_rate (aggregate_group (Some ''BMW7812'') example_week) = Some (of_int z) \<and>
      \<bar>rat_of_int z - 570 / 7\<bar> \<le> 1 / 2)"
proof -
  have ids: "remdups (map sim_patient_id example_week) = [Some ''BMW7812'']"
    by (simp add: example_week_def reading_def)
  have grp: "filter (\<lambda>r. sim_patient_id r = Some ''BMW7812'') example_week = example_week"
    by (simp add: example_week_def reading_def)
  have mem: "aggregate_group (Some ''BMW7812'') example_week \<in> set (agg example_week)"
    by (simp add: agg_def ids grp)
  have pid: "agg_patient_id (aggregate_group (Some ''BMW7812'') example_week) = Some ''BMW7812''"
    by (simp add: aggregate_group_def Let_def)
  have hs: "entity_heart_rates example_week (Some ''BMW7812'') = [60, 70, 80, 90, 100, 110, 60]"
    by (simp add: entity_heart_rates_def grp) (simp add: example_week_def reading_def non_null_def)
  from weekly_heart_rate_rounded [of "aggregate_group (Some ''BMW7812'') example_week" example_week]
    mem hs
  show ?thesis
    by (simp add: pid)
qed

section \<open>Properties of the scoring handler\<close>

lemma publishes_append [simp]: "publishes (a @ b) = publishes a @ publishes b"
  by (simp add: publishes_def)

lemma puts_append [simp]: "puts (a @ b) = puts a @ puts b"
  by (simp add: puts_def)

lemma publishes_simps [simp]:
  "publishes [] = []"
  "publishes (Publish t m s # tr) = (t, m, s) # publishes tr"
  "publishes (Print_invoked # tr) = publishes tr"
  "publishes (Print_loaded n # tr) = publishes tr"
  "publishes (Print_using_file k # tr) = publishes tr"
  "publishes (Print_columns n ns # tr) = publishes tr"
  "publishes (Print_risk_score p x # tr) = publishes tr"
  "publishes (Print_alert p x # tr) = publishes tr"
  "publishes (Put_object k ps # tr) = publishes tr"
  "publishes (Print_saved k # tr) = publishes tr"
  "publishes (Print_sns_sent # tr) = publishes tr"
  "publishes (Print_sns_failed e # tr) = publishes tr"
  "publishes (Print_processed n a # tr) = publishes tr"
  by (simp_all add: publishes_def)

lemma puts_simps [simp]:
  "puts [] = []"
  "puts (Put_object k ps # tr) = (k, ps) # puts tr"
  "puts (Print_invoked # tr) = puts tr"
  "puts (Print_loaded n # tr) = puts tr"
  "puts (Print_using_file k # tr) = puts tr"
  "puts (Print_columns n ns # tr) = puts tr"
  "puts (Print_risk_score p x # tr) = puts tr"
  "puts (Print_alert p x # tr) = puts tr"
  "puts (Publish t m s # tr) = puts tr"
  "puts (Print_saved k # tr) = puts tr"
  "puts (Print_sns_sent # tr) = puts tr"
  "puts (Print_sns_failed e # tr) = puts tr"
  "puts (Print_processed n a # tr) = puts tr"
  by (simp_all add: puts_def)

lemma score_row_invariant:
  "score_row L W F i row st = Inr st' \<Longrightarrow> loop_invariant L st \<Longrightarrow> loop_invariant L st'"
  by (auto simp: score_row_def and_then_def Let_def loop_invariant_def risk_status_of_def
      split: sum.splits if_splits option.splits)

lemma score_rows_invariant:
  "score_rows L W F i rows st = Inr st' \<Longrightarrow> loop_invariant L st \<Longrightarrow> loop_invariant L st'"
proof (induction rows arbitrary: i st)
  case Nil
  then show ?case by simp
next
  case (Cons row rows)
  from Cons.prems(1) obtain st1 where
    s1: "score_row L W F i row st = Inr st1" and
    s2: "score_rows L W F (i + 1) rows st1 = Inr st'"
    by (auto simp: and_then_def split: sum.splits)
  from s1 Cons.prems(2) have "loop_invariant L st1"
    by (rule score_row_invariant)
  with s2 show ?case
    by (rule Cons.IH)
qed

lemma score_row_publish [simp]:
  "score_row L (W\<lparr>publish := p\<rparr>) F i row st = score_row L W F i row st"
  by (simp add: score_row_def Let_def and_then_def split: sum.splits option.splits)

lemma score_rows_publish [simp]:
  "score_rows L (W\<lparr>publish := p\<rparr>) F i rows st = score_rows L W F i rows st"
  by (induction rows arbitrary: i st) (simp_all add: and_then_def split: sum.splits)

lemma load_feature_list_publish [simp]:
  "load_feature_list L (W\<lparr>publish := p\<rparr>) = load_feature_list L W"
  by (simp add: load_feature_list_def get_object_def)

lemma get_object_publish [simp]: "get_object (W\<lparr>publish := p\<rparr>) k = get_object W k"
  by (simp add: get_object_def)

lemma list_objects_publish [simp]: "list_objects_v2 (W\<lparr>publish := p\<rparr>) k = list_objects_v2 W k"
  by (simp add: list_objects_v2_def)

lemma save_predictions_publish [simp]:
  "save_predictions (W\<lparr>publish := p\<rparr>) st = save_predictions W st"
  by (simp add: save_predictions_def Let_def)

lemma save_predictions_fields:
  "save_predictions W st = Inr st' \<Longrightarrow>
     results st' = results st \<and> alerts st' = alerts st \<and> alert_list st' = alert_list st \<and>
     predictions st' = predictions st \<and> publishes (trace st') = publishes (trace st) \<and>
     puts (trace st') = puts (trace st) @
       (if predictions st \<noteq> []
        then [(''predictions/heart_attack_predictions_'' @ utcnow_strftime W @ ''.csv'', predictions st)]
        else [])"
  by (auto simp: save_predictions_def Let_def split: if_splits option.splits)

lemma send_notification_fields:
  "results (send_notification L W st) = results st"
  "alerts (send_notification L W st) = alerts st"
  "alert_list (send_notification L W st) = alert_list st"
  "puts (trace (send_notification L W st)) = puts (trace st)"
  "publishes (trace (send_notification L W st)) = publishes (trace st) @
     (if alerts st > 0
      then [(ALERT_TOPIC_ARN, alert_message L (alerts st) (alert_list st),
             ''Heart Health Alert Triggered'')]
      else [])"
  by (simp_all add: send_notification_def Let_def split: option.splits)


lemma send_notification_publish_fields:
  "results (send_notification L (W\<lparr>publish := p\<rparr>) st) = results st"
  "alerts (send_notification L (W\<lparr>publish := p\<rparr>) st) = alerts st"
  "alert_list (send_notification L (W\<lparr>publish := p\<rparr>) st) = alert_list st"
  by (simp_all add: send_notification_fields)

text \<open>A run that returns either found no table or went through loop, save and notification.\<close>

lemma lambda_handler_cases:
  assumes "lambda_handler L W = Inr (resp, tr)"
  obtains (no_csv) F where
    "load_feature_list L W = Inr F"
    "filter (endswith ''.csv'') (list_objects_v2 W PROCESSED_PREFIX) = []"
    "resp = \<lparr>statusCode = 404, body = Error_body ''No CSV file found.''\<rparr>"
    "tr = [Print_invoked, Print_loaded (length F)]"
  | (scored) F key content names rows st1 st2 where
    "load_feature_list L W = Inr F"
    "filter (endswith ''.csv'') (list_objects_v2 W PROCESSED_PREFIX) \<noteq> []"
    "key = hd (filter (endswith ''.csv'') (list_objects_v2 W PROCESSED_PREFIX))"
    "get_object W key = Inr content"
    "dict_reader L (splitlines L content) = (Some names, rows)"
    "score_rows L W F 0 (take MAX_ROWS_TO_PROCESS rows)
       \<lparr>results = [], alerts = 0, alert_list = [], predictions = [],
        trace = [Print_invoked, Print_loaded (length F), Print_using_file key,
                 Print_columns (length names) names]\<rparr> = Inr st1"
    "save_predictions W st1 = Inr st2"
    "resp = \<lparr>statusCode = 200,
             body = Summary_body (length rows) (alerts st2) (alert_list st2) (results st2)\<rparr>"
    "tr = trace (send_notification L W st2) @ [Print_processed (length rows) (alerts st2)]"
  using assms
  by (auto simp: lambda_handler_def and_then_def Let_def send_notification_fields
      split: sum.splits if_splits option.splits prod.splits)

lemma initial_invariant:
  "loop_invariant L \<lparr>results = [], alerts = 0, alert_list = [], predictions = [],
     trace = [Print_invoked, Print_loaded n, Print_using_file key, Print_columns m names]\<rparr>"
  by (simp add: loop_invariant_def)


text \<open>
  Claim C7. In the prediction table a run stores, the label of every scored row is
  \<open>HIGH_RISK\<close> when its score is strictly greater than the alert threshold and
  \<open>LOW_RISK\<close> otherwise. The threshold is 0.45: the score 0.50 is labelled
  \<open>HIGH_RISK\<close>, the score 0.45 \<open>LOW_RISK\<close>.
\<close>

theorem risk_status_strictly_above_threshold:
  "(lambda_handler L W = Inr (resp, tr) \<and> (key, preds) \<in> set (puts tr) \<longrightarrow>
      (\<exists>n k details scores. body resp = Summary_body n k details scores \<and>
         map pred_risk_status preds =
           map (\<lambda>score. if score > ALERT_THRESHOLD then HIGH_RISK else LOW_RISK) scores)) \<and>
   (risk_status_of score = HIGH_RISK \<longleftrightarrow> score > ALERT_THRESHOLD) \<and>
   ALERT_THRESHOLD = 45 / 100 \<and>
   risk_status_of (50 / 100) = HIGH_RISK \<and>
   risk_status_of (45 / 100) = LOW_RISK"
proof -
  have labels: "\<exists>n k details scores. body resp = Summary_body n k details scores \<and>
         map pred_risk_status preds =
           map (\<lambda>score. if score > ALERT_THRESHOLD then HIGH_RISK else LOW_RISK) scores"
    if run: "lambda_handler L W = Inr (resp, tr)" and put: "(key, preds) \<in> set (puts tr)"
    using run
  proof (cases rule: lambda_handler_cases)
    case (no_csv F)
    with put show ?thesis by simp
  next
    case (scored F key' content names rows st1 st2)
    have inv: "loop_invariant L st1"
      using scored(6) initial_invariant by (rule score_rows_invariant)
    note saved = save_predictions_fields [OF scored(7)]
    from put have "preds = predictions st1"
      using inv
      by (auto simp: scored(9) send_notification_fields saved loop_invariant_def split: if_splits)
    with inv have "map pred_risk_status preds = map risk_status_of (results st2)"
      by (simp add: loop_invariant_def saved)
    then show ?thesis
      by (simp add: scored(8) risk_status_of_def [abs_def])
  qed
  have "risk_status_of score = HIGH_RISK \<longleftrightarrow> score > ALERT_THRESHOLD"
    by (simp add: risk_status_of_def)
  moreover have "risk_status_of (50 / 100) = HIGH_RISK" "risk_status_of (45 / 100) = LOW_RISK"
    by (simp_all add: risk_status_of_def ALERT_THRESHOLD_def)
  ultimately show ?thesis
    using labels by (simp add: ALERT_THRESHOLD_def)
qed

text \<open>
  Claim C8. Without the feature-list object the handler raises the store's
  resource-not-found failure, whatever else the bucket holds. With it, and with no key
  under the processed prefix that ends in \<open>.csv\<close>, the handler returns the response
  with status 404 and the error body, and raises nothing.
\<close>

theorem missing_table_404_missing_feature_list_raises:
  "(map_of (s3_objects W) FEATURE_LIST_KEY = None \<longrightarrow>
      lambda_handler L W = Inl (NoSuchKey FEATURE_LIST_KEY)) \<and>
   (map_of (s3_objects W) FEATURE_LIST_KEY \<noteq> None \<and>
    (\<forall>key\<in>set (map fst (s3_objects W)).
        startswith PROCESSED_PREFIX key \<longrightarrow> \<not> endswith ''.csv'' key) \<longrightarrow>
      (\<exists>tr. lambda_handler L W =
         Inr (\<lparr>statusCode = 404, body = Error_body ''No CSV file found.''\<rparr>, tr)))"
proof -
  have absent: "lambda_handler L W = Inl (NoSuchKey FEATURE_LIST_KEY)"
    if "map_of (s3_objects W) FEATURE_LIST_KEY = None"
    using that by (simp add: lambda_handler_def load_feature_list_def get_object_def)
  have no_table: "\<exists>tr. lambda_handler L W =
         Inr (\<lparr>statusCode = 404, body = Error_body ''No CSV file found.''\<rparr>, tr)"
    if present: "map_of (s3_objects W) FEATURE_LIST_KEY \<noteq> None"
      and none: "\<forall>key\<in>set (map fst (s3_objects W)).
        startswith PROCESSED_PREFIX key \<longrightarrow> \<not> endswith ''.csv'' key"
  proof -
    obtain F where F: "load_feature_list L W = Inr F"
      using present by (auto simp: load_feature_list_def get_object_def Let_def)
    have "set (list_objects_v2 W PROCESSED_PREFIX) \<subseteq>
        {key \<in> set (map fst (s3_objects W)). startswith PROCESSED_PREFIX key}"
      unfolding list_objects_v2_def using set_take_subset by fastforce
    with none have "filter (endswith ''.csv'') (list_objects_v2 W PROCESSED_PREFIX) = []"
      by (auto simp: filter_empty_conv)
    then show ?thesis
      by (simp add: lambda_handler_def F Let_def)
  qed
  from absent no_table show ?thesis by blast
qed

lemma example_run:
  "lambda_handler example_python example_services = Inr (example_response, example_trace)"
  by code_simp


theorem risk_status_strictly_above_threshold_witness:
  "lambda_handler example_python example_services = Inr (example_response, example_trace) \<and>
   (''predictions/heart_attack_predictions_20251124_010405.csv'', example_predictions)
     \<in> set (puts example_trace) \<and>
   all_scores (body example_response) = [50 / 100, 45 / 100] \<and>
   map pred_risk_status example_predictions = [HIGH_RISK, LOW_RISK]"
proof -
  have put: "(''predictions/heart_attack_predictions_20251124_010405.csv'', example_predictions)
     \<in> set (puts example_trace)"
    by (simp add: example_trace_def)
  have scores: "all_scores (body example_response) = [50 / 100, 45 / 100]"
    by (simp add: example_response_def)
  from risk_status_strictly_above_threshold
    [of example_python example_services example_response example_trace
      "''predictions/heart_attack_predictions_20251124_010405.csv''" example_predictions]
    example_run put scores
  show ?thesis
    by (simp add: example_predictions_def)
qed

theorem missing_table_404_missing_feature_list_raises_witness:
  "lambda_handler example_python (example_services\<lparr>s3_objects := tl example_objects\<rparr>) =
     Inl (NoSuchKey ''preprocess/feature_list.txt'') \<and>
   (\<exists>tr. lambda_handler example_python (example_services\<lparr>s3_objects := [hd example_objects]\<rparr>) =
     Inr (\<lparr>statusCode = 404, body = Error_body ''No CSV file found.''\<rparr>, tr))"
proof -
  have absent: "map_of (s3_objects (example_services\<lparr>s3_objects := tl example_objects\<rparr>))
      FEATURE_LIST_KEY = None"
    by (simp add: example_objects_def FEATURE_LIST_KEY_def)
  have present: "map_of (s3_objects (example_services\<lparr>s3_objects := [hd example_objects]\<rparr>))
      FEATURE_LIST_KEY \<noteq> None"
    by (simp add: example_objects_def FEATURE_LIST_KEY_def)
  have none: "\<forall>key\<in>set (map fst (s3_objects (example_services\<lparr>s3_objects := [hd example_objects]\<rparr>))).
      startswith PROCESSED_PREFIX key \<longrightarrow> \<not> endswith ''.csv'' key"
    by (simp add: example_objects_def startswith_def PROCESSED_PREFIX_def)
  from missing_table_404_missing_feature_list_raises
      [of "example_services\<lparr>s3_objects := tl example_objects\<rparr>" example_python]
    missing_table_404_missing_feature_list_raises
      [of "example_services\<lparr>s3_objects := [hd example_objects]\<rparr>" example_python]
    absent present none
  show ?thesis
    by (simp add: FEATURE_LIST_KEY_def)
qed

end
